theory Spec2Isabelle
  imports Main "HOL-Library.Sublist"
begin

section \<open>csv\_to\_mssql\_sql.py: CSV to SQL Server script\<close>

text \<open>
  A shallow embedding of \<^verbatim>\<open>src/csv_to_mssql_sql.py\<close>. Python strings are
  \<open>string\<close>, Python's unbounded integers are \<open>int\<close>, and each pandas or
  standard-library operation the script calls is written out as the function it
  computes on the values the script can hand to it. A \<open>char\<close> is one character
  of a Python string, named by its code point: the strings of the model are the
  Python strings whose characters lie in the range U+0000 to U+00FF, and the length
  of a string counts characters as Python's \<^verbatim>\<open>len\<close> does.
\<close>

subsection \<open>Characters and Python string operations\<close>

definition sq :: char where
  "sq = CHR 0x27"

definition nl :: char where
  "nl = CHR 0x0A"

text \<open>\<^verbatim>\<open>sep.join(parts)\<close>.\<close>

fun join :: "string \<Rightarrow> string list \<Rightarrow> string" where
  "join sep [] = []"
| "join sep [x] = x"
| "join sep (x # y # ys) = x @ sep @ join sep (y # ys)"

text \<open>
  \<^verbatim>\<open>s.replace(old, new)\<close>: the occurrences of \<open>old\<close> are found from left to
  right and do not overlap; an empty \<open>old\<close> matches before every character and at
  the end.
\<close>

function replace :: "string \<Rightarrow> string \<Rightarrow> string \<Rightarrow> string" where
  "replace old new [] = (if old = [] then new else [])"
| "replace old new (c # cs) =
     (if old = [] then new @ c # replace old new cs
      else if prefix old (c # cs) then new @ replace old new (drop (length old) (c # cs))
      else c # replace old new cs)"
  by pat_completeness auto
termination
  by (relation "measure (\<lambda>(old, new, s). length s)") auto

text \<open>\<^verbatim>\<open>str(n)\<close> for a Python \<open>int\<close>.\<close>

fun str_nat :: "nat \<Rightarrow> string" where
  "str_nat n =
     (if n < 10 then [''0123456789'' ! n]
      else str_nat (n div 10) @ [''0123456789'' ! (n mod 10)])"

declare str_nat.simps [simp del]

definition str_int :: "int \<Rightarrow> string" where
  "str_int i = (if i < 0 then CHR ''-'' # str_nat (nat (- i)) else str_nat (nat i))"

text \<open>The ten decimal digits of ASCII, the only digits a number in a CSV cell is made of.\<close>

definition ascii_digit :: "char \<Rightarrow> bool" where
  "ascii_digit c = (c \<in> set ''0123456789'')"

text \<open>
  \<^verbatim>\<open>ch.isdigit()\<close>: true for the characters Unicode gives a digit value. In
  the range U+0000 to U+00FF these are the ten ASCII digits and the superscripts
  two (U+00B2), three (U+00B3) and one (U+00B9); the fractions U+00BC to U+00BE are
  numeric but no digits.
\<close>

definition isdigit :: "char \<Rightarrow> bool" where
  "isdigit c = (ascii_digit c \<or> c \<in> set [CHR 0xB2, CHR 0xB3, CHR 0xB9])"

subsection \<open>Values held in the cells of a frame\<close>

text \<open>
  The Python objects that reach \<^verbatim>\<open>quote_value\<close> and \<^verbatim>\<open>detect_type\<close>.
  A finite float is kept abstract (the type variable \<open>'f\<close>); the functions that need
  Python's \<^verbatim>\<open>str\<close> of a float or numpy's conversion of an integer to a float
  take them as the arguments \<open>fstr\<close> and \<open>fint\<close>. \<^verbatim>\<open>numpy.float64\<close> is a
  subclass of \<^verbatim>\<open>float\<close> and is rendered alike, so both are \<open>PyFloat\<close>;
  \<^verbatim>\<open>numpy.int64\<close> and \<^verbatim>\<open>numpy.bool_\<close> are not subclasses of
  \<^verbatim>\<open>int\<close> and are kept apart from \<open>PyInt\<close> and \<open>PyBool\<close>. \<open>PyOther s\<close>
  is any other object that is not missing (a \<^verbatim>\<open>Timestamp\<close>, say), given by
  the text \<^verbatim>\<open>str\<close> returns for it.
\<close>

datatype 'f pyval =
    PyNone
  | NaN
  | NaT
  | PyFloat 'f
  | PyInt int
  | PyBool bool
  | PyStr string
  | NpInt int
  | NpBool bool
  | PyOther string

text \<open>\<^verbatim>\<open>pd.isna(val)\<close> on a scalar.\<close>

fun isna :: "'f pyval \<Rightarrow> bool" where
  "isna PyNone = True"
| "isna NaN = True"
| "isna NaT = True"
| "isna _ = False"

text \<open>\<^verbatim>\<open>str(val)\<close>.\<close>

fun py_str :: "('f \<Rightarrow> string) \<Rightarrow> 'f pyval \<Rightarrow> string" where
  "py_str fstr PyNone = ''None''"
| "py_str fstr NaN = ''nan''"
| "py_str fstr NaT = ''NaT''"
| "py_str fstr (PyFloat x) = fstr x"
| "py_str fstr (PyInt n) = str_int n"
| "py_str fstr (PyBool b) = (if b then ''True'' else ''False'')"
| "py_str fstr (PyStr s) = s"
| "py_str fstr (NpInt n) = str_int n"
| "py_str fstr (NpBool b) = (if b then ''True'' else ''False'')"
| "py_str fstr (PyOther s) = s"

subsection \<open>\<^verbatim>\<open>bracket_ident\<close> and \<^verbatim>\<open>quote_value\<close>\<close>

definition bracket_ident :: "string \<Rightarrow> string" where
  "bracket_ident name = ''['' @ replace '']'' '']]'' name @ '']''"

text \<open>
  \<^verbatim>\<open>quote_value\<close>, branch by branch: \<^verbatim>\<open>None\<close> and a NaN float, then
  whatever else \<^verbatim>\<open>pd.isna\<close> accepts, then
  \<^verbatim>\<open>isinstance(val, (int, float))\<close> (a \<^verbatim>\<open>bool\<close> is an \<^verbatim>\<open>int\<close>
  there, a numpy integer is not), then the quoted literal.
\<close>

fun quote_value :: "('f \<Rightarrow> string) \<Rightarrow> 'f pyval \<Rightarrow> string" where
  "quote_value fstr PyNone = ''NULL''"
| "quote_value fstr NaN = ''NULL''"
| "quote_value fstr NaT = ''NULL''"
| "quote_value fstr (PyInt n) = str_int n"
| "quote_value fstr (PyBool b) = str_int (if b then 1 else 0)"
| "quote_value fstr (PyFloat x) = fstr x"
| "quote_value fstr v = ''N'' @ [sq] @ replace [sq] [sq, sq] (py_str fstr v) @ [sq]"

text \<open>
  The reading of a literal back: the wrapper \<^verbatim>\<open>N'...'\<close> is taken off and each
  doubled quote becomes one quote. A quote that is not doubled ends the literal
  early, so the reading fails there.
\<close>

fun undouble :: "string \<Rightarrow> string option" where
  "undouble [] = Some []"
| "undouble [c] = (if c = sq then None else Some [c])"
| "undouble (c # d # ds) =
     (if c = sq then (if d = sq then map_option (Cons sq) (undouble ds) else None)
      else map_option (Cons c) (undouble (d # ds)))"

definition unquote_literal :: "string \<Rightarrow> string option" where
  "unquote_literal lit =
     (case lit of
        n # q # rest \<Rightarrow>
          (if n = CHR ''N'' \<and> q = sq \<and> rest \<noteq> [] \<and> last rest = sq
           then undouble (butlast rest) else None)
      | _ \<Rightarrow> None)"

subsection \<open>Columns and \<^verbatim>\<open>detect_type\<close>\<close>

text \<open>
  The dtypes the checks of \<^verbatim>\<open>detect_type\<close> tell apart; \<open>OtherDtype\<close> is any
  dtype that none of them accepts (a timedelta or a categorical, say). A
  \<^verbatim>\<open>Series\<close> is its dtype and its cells as they are stored: numpy integers in
  an integer column, floats and NaN in a float column, arbitrary objects in an
  object column.
\<close>

datatype dtype = Int64 | UInt64 | Float64 | BoolDtype | Datetime64 | Object | OtherDtype

record 'f series =
  dtype :: dtype
  cells :: "'f pyval list"

definition is_integer_dtype :: "dtype \<Rightarrow> bool" where
  "is_integer_dtype d = (d = Int64 \<or> d = UInt64)"

definition is_float_dtype :: "dtype \<Rightarrow> bool" where
  "is_float_dtype d = (d = Float64)"

definition is_bool_dtype :: "dtype \<Rightarrow> bool" where
  "is_bool_dtype d = (d = BoolDtype)"

definition is_datetime64_any_dtype :: "dtype \<Rightarrow> bool" where
  "is_datetime64_any_dtype d = (d = Datetime64)"

definition is_object_dtype :: "dtype \<Rightarrow> bool" where
  "is_object_dtype d = (d = Object)"

datatype sql_key = KInt | KFloat | KBool | KDatetime | KDate | KTime | KString

fun SQL_TYPE_MAP :: "sql_key \<Rightarrow> string" where
  "SQL_TYPE_MAP KInt = ''BIGINT''"
| "SQL_TYPE_MAP KFloat = ''FLOAT''"
| "SQL_TYPE_MAP KBool = ''BIT''"
| "SQL_TYPE_MAP KDatetime = ''DATETIME2''"
| "SQL_TYPE_MAP KDate = ''DATE''"
| "SQL_TYPE_MAP KTime = ''TIME''"
| "SQL_TYPE_MAP KString = ''NVARCHAR(MAX)''"

definition looks_like_date :: "string \<Rightarrow> bool" where
  "looks_like_date s =
     (list_ex (\<lambda>sep. sep \<in> set s) [CHR ''-'', CHR ''/''] \<and> list_ex isdigit s)"

definition looks_like_time :: "string \<Rightarrow> bool" where
  "looks_like_time s = (count_list s CHR '':'' \<ge> 1 \<and> list_ex isdigit s)"

text \<open>
  \<^verbatim>\<open>series.dropna().astype(str).head(100)\<close>: the cells that are not missing,
  each as its text, the first hundred of them.
\<close>

definition sample_non_null :: "('f \<Rightarrow> string) \<Rightarrow> 'f series \<Rightarrow> string list" where
  "sample_non_null fstr s = take 100 (map (py_str fstr) (filter (\<lambda>v. \<not> isna v) (cells s)))"

text \<open>
  \<^verbatim>\<open>flags.mean() > 0.9\<close> on a boolean series of \<open>n\<close> flags, \<open>k\<close> of them
  true. pandas divides the two counts as doubles, which rounds \<open>k / n\<close> to the
  nearest double, and \<^verbatim>\<open>0.9\<close> is the double nearest to nine tenths. For
  \<open>n \<le> 100\<close> a ratio other than nine tenths is at least a thousandth away from it,
  so the comparison of the doubles is the comparison of the exact ratios, written
  here without division.
\<close>

definition mean_gt_090 :: "bool list \<Rightarrow> bool" where
  "mean_gt_090 flags = (9 * length flags < 10 * length (filter (\<lambda>b. b) flags))"

definition detect_type :: "('f \<Rightarrow> string) \<Rightarrow> 'f series \<Rightarrow> string" where
  "detect_type fstr series =
     (if is_integer_dtype (dtype series) then SQL_TYPE_MAP KInt
      else if is_float_dtype (dtype series) then SQL_TYPE_MAP KFloat
      else if is_bool_dtype (dtype series) then SQL_TYPE_MAP KBool
      else if is_datetime64_any_dtype (dtype series) then SQL_TYPE_MAP KDatetime
      else if is_object_dtype (dtype series) then
        (let sample = sample_non_null fstr series
         in if length sample \<noteq> 0 \<and> mean_gt_090 (map looks_like_date sample)
            then SQL_TYPE_MAP KDate
            else if length sample \<noteq> 0 \<and> mean_gt_090 (map looks_like_time sample)
            then SQL_TYPE_MAP KTime
            else SQL_TYPE_MAP KString)
      else SQL_TYPE_MAP KString)"

subsection \<open>The dtype \<^verbatim>\<open>pd.read_csv\<close> gives a column\<close>

text \<open>
  \<^verbatim>\<open>detect_type\<close> decides on the dtype of the series, and the dtype is what
  \<^verbatim>\<open>pd.read_csv\<close> inferred for the column in \<^verbatim>\<open>main\<close>. A column
  is given here by its cells after the null sentinels are replaced (\<open>None\<close> for a
  sentinel, the text of the cell otherwise). Three cases of the inference of pandas
  are written out, the ones the integer columns fall under:
  \<^item> a frame without rows has \<^verbatim>\<open>object\<close> columns;
  \<^item> a column whose cells are all 64-bit integers in text, none missing, is an
    \<^verbatim>\<open>int64\<close> column;
  \<^item> a column whose cells are such integers or missing, one at least missing, is a
    \<^verbatim>\<open>float64\<close> column with NaN for the missing cells (a numpy integer array
    has no value for a missing cell).
  Every other column is left to \<open>other\<close>, and the reading of a number's text as a
  float to \<open>fparse\<close>. An integer in text is an optional minus sign and then ASCII
  digits only.
\<close>

definition digits_value :: "string \<Rightarrow> nat" where
  "digits_value ds = foldl (\<lambda>acc c. 10 * acc + (of_char c - 48)) 0 ds"

definition is_int_token :: "string \<Rightarrow> bool" where
  "is_int_token s =
     (case s of
        [] \<Rightarrow> False
      | c # cs \<Rightarrow> if c = CHR ''-'' then cs \<noteq> [] \<and> list_all ascii_digit cs
                  else list_all ascii_digit (c # cs))"

definition int_of_token :: "string \<Rightarrow> int" where
  "int_of_token s =
     (case s of
        [] \<Rightarrow> 0
      | c # cs \<Rightarrow> if c = CHR ''-'' then - int (digits_value cs)
                  else int (digits_value (c # cs)))"

definition parses_as_int64 :: "string \<Rightarrow> bool" where
  "parses_as_int64 s =
     (is_int_token s \<and> - (2 ^ 63) \<le> int_of_token s \<and> int_of_token s < 2 ^ 63)"

fun int_cell :: "string option \<Rightarrow> bool" where
  "int_cell None = False"
| "int_cell (Some s) = parses_as_int64 s"

fun int_or_null_cell :: "string option \<Rightarrow> bool" where
  "int_or_null_cell None = True"
| "int_or_null_cell (Some s) = parses_as_int64 s"

fun int64_of_cell :: "string option \<Rightarrow> 'f pyval" where
  "int64_of_cell None = NaN"
| "int64_of_cell (Some s) = NpInt (int_of_token s)"

fun float64_of_cell :: "(string \<Rightarrow> 'f) \<Rightarrow> string option \<Rightarrow> 'f pyval" where
  "float64_of_cell fparse None = NaN"
| "float64_of_cell fparse (Some s) = PyFloat (fparse s)"

definition read_csv_column ::
  "(string \<Rightarrow> 'f) \<Rightarrow> (string option list \<Rightarrow> 'f series) \<Rightarrow> string option list \<Rightarrow> 'f series" where
  "read_csv_column fparse other raw =
     (if raw = [] then \<lparr>dtype = Object, cells = []\<rparr>
      else if list_all int_cell raw then \<lparr>dtype = Int64, cells = map int64_of_cell raw\<rparr>
      else if list_all int_or_null_cell raw
           then \<lparr>dtype = Float64, cells = map (float64_of_cell fparse) raw\<rparr>
      else other raw)"

subsection \<open>Frames and their rows\<close>

text \<open>
  A \<^verbatim>\<open>DataFrame\<close>: the length of its index and its columns in order, each a
  label and a series. \<^verbatim>\<open>pd.read_csv\<close> makes the labels distinct, so the
  \<^verbatim>\<open>row[c]\<close> of the script is the cell of the row at the column's position.
\<close>

record 'f dataframe =
  nrows :: nat
  columns :: "(string \<times> 'f series) list"

definition wf_dataframe :: "'f dataframe \<Rightarrow> bool" where
  "wf_dataframe df = list_all (\<lambda>c. length (cells (snd c)) = nrows df) (columns df)"

text \<open>
  \<^verbatim>\<open>df.iterrows()\<close> yields each row as a \<^verbatim>\<open>Series\<close> over the frame's
  \<^verbatim>\<open>values\<close>, one array of a single dtype for the whole frame: the common dtype
  when all columns share it, \<^verbatim>\<open>float64\<close> when the columns mix integer and
  float dtypes, and \<^verbatim>\<open>object\<close> otherwise. A cell of an integer or boolean
  column is converted with the array: to a float in a float array, and to a Python
  \<^verbatim>\<open>int\<close> or \<^verbatim>\<open>bool\<close> in an object array; in an integer or boolean
  array it stays the numpy scalar it is.
\<close>

definition common_dtype :: "dtype list \<Rightarrow> dtype" where
  "common_dtype ds =
     (case ds of
        [] \<Rightarrow> Object
      | d # rest \<Rightarrow>
          if list_all (\<lambda>e. e = d) rest then d
          else if list_all (\<lambda>e. e = Int64 \<or> e = UInt64 \<or> e = Float64) ds then Float64
          else Object)"

fun cast_cell :: "(int \<Rightarrow> 'f) \<Rightarrow> dtype \<Rightarrow> dtype \<Rightarrow> 'f pyval \<Rightarrow> 'f pyval" where
  "cast_cell fint common d (NpInt n) =
     (if common = d then NpInt n
      else if common = Float64 then PyFloat (fint n)
      else PyInt n)"
| "cast_cell fint common d (NpBool b) = (if common = d then NpBool b else PyBool b)"
| "cast_cell fint common d v = v"

definition iterrows :: "(int \<Rightarrow> 'f) \<Rightarrow> 'f dataframe \<Rightarrow> 'f pyval list list" where
  "iterrows fint df =
     map (\<lambda>i. map (\<lambda>c. cast_cell fint (common_dtype (map (dtype \<circ> snd) (columns df)))
                          (dtype (snd c)) (cells (snd c) ! i))
                 (columns df))
         [0..<nrows df]"

text \<open>\<^verbatim>\<open>df.head(n)\<close>: the first \<open>n\<close> rows, or all but the last \<open>-n\<close> for a negative \<open>n\<close>.\<close>

definition head :: "int \<Rightarrow> 'f dataframe \<Rightarrow> 'f dataframe" where
  "head n df =
     (let k = (if 0 \<le> n then min (nat n) (nrows df) else nrows df - nat (- n))
      in \<lparr>nrows = k,
          columns = map (\<lambda>c. (fst c, (snd c)\<lparr>cells := take k (cells (snd c))\<rparr>)) (columns df)\<rparr>)"

subsection \<open>The emitters\<close>

definition build_create_table :: "('f \<Rightarrow> string) \<Rightarrow> 'f dataframe \<Rightarrow> string \<Rightarrow> string" where
  "build_create_table fstr df table_name =
     (let cols_sql = map (\<lambda>c. bracket_ident (fst c) @ '' '' @ detect_type fstr (snd c)) (columns df);
          cols_joined = join ('','' @ [nl] @ ''    '') cols_sql
      in ''IF OBJECT_ID(N'' @ [sq] @ table_name @ [sq] @ '', N'' @ [sq] @ ''U'' @ [sq]
         @ '') IS NOT NULL DROP TABLE '' @ table_name @ '';'' @ [nl] @ ''GO'' @ [nl]
         @ ''CREATE TABLE '' @ table_name @ '' ('' @ [nl] @ ''    '' @ cols_joined @ [nl]
         @ '');'' @ [nl] @ ''GO'')"

text \<open>One \<^verbatim>\<open>INSERT\<close> statement of \<^verbatim>\<open>build_inserts\<close>, and one value tuple.\<close>

definition insert_statement :: "string \<Rightarrow> string \<Rightarrow> string list \<Rightarrow> string" where
  "insert_statement table_name col_idents batch =
     ''INSERT INTO '' @ table_name @ '' ('' @ col_idents @ '') VALUES'' @ [nl]
     @ join ('','' @ [nl]) batch @ '';'' @ [nl] @ ''GO''"

definition value_tuple :: "('f \<Rightarrow> string) \<Rightarrow> 'f pyval list \<Rightarrow> string" where
  "value_tuple fstr row = ''('' @ join '', '' (map (quote_value fstr) row) @ '')''"

text \<open>
  The loop of \<^verbatim>\<open>build_inserts\<close> over the rows still to come, with the two lists
  it fills, \<^verbatim>\<open>batch\<close> and \<^verbatim>\<open>statements\<close>; at the end of the rows the
  batch left over, if any, is one more statement.
\<close>

fun inserts_loop ::
  "('f \<Rightarrow> string) \<Rightarrow> string \<Rightarrow> string \<Rightarrow> int \<Rightarrow> 'f pyval list list
     \<Rightarrow> string list \<Rightarrow> string list \<Rightarrow> string list" where
  "inserts_loop fstr table_name col_idents batch_size [] batch statements =
     (if batch \<noteq> [] then statements @ [insert_statement table_name col_idents batch]
      else statements)"
| "inserts_loop fstr table_name col_idents batch_size (row # rows) batch statements =
     (if int (length (batch @ [value_tuple fstr row])) \<ge> batch_size
      then inserts_loop fstr table_name col_idents batch_size rows []
             (statements @ [insert_statement table_name col_idents (batch @ [value_tuple fstr row])])
      else inserts_loop fstr table_name col_idents batch_size rows
             (batch @ [value_tuple fstr row]) statements)"

definition insert_statements ::
  "('f \<Rightarrow> string) \<Rightarrow> (int \<Rightarrow> 'f) \<Rightarrow> 'f dataframe \<Rightarrow> string \<Rightarrow> int \<Rightarrow> string list" where
  "insert_statements fstr fint df table_name batch_size =
     inserts_loop fstr table_name (join '', '' (map (bracket_ident \<circ> fst) (columns df)))
       batch_size (iterrows fint df) [] []"

definition build_inserts ::
  "('f \<Rightarrow> string) \<Rightarrow> (int \<Rightarrow> 'f) \<Rightarrow> 'f dataframe \<Rightarrow> string \<Rightarrow> int \<Rightarrow> string" where
  "build_inserts fstr fint df table_name batch_size =
     join [nl] (insert_statements fstr fint df table_name batch_size)"

subsection \<open>\<^verbatim>\<open>main\<close>, from the row limit to the written script\<close>

text \<open>
  \<^verbatim>\<open>if args.limit: df = df.head(args.limit)\<close>: the test is Python's truth
  value of \<^verbatim>\<open>args.limit\<close>, false for \<^verbatim>\<open>None\<close> and for \<open>0\<close>.
\<close>

definition apply_limit :: "int option \<Rightarrow> 'f dataframe \<Rightarrow> 'f dataframe" where
  "apply_limit limit df =
     (case limit of
        None \<Rightarrow> df
      | Some n \<Rightarrow> if n \<noteq> 0 then head n df else df)"

text \<open>
  The text \<^verbatim>\<open>main\<close> writes to the output file, given the frame
  \<^verbatim>\<open>pd.read_csv\<close> returned, the name of the source file and the arguments
  \<^verbatim>\<open>--table\<close> and \<^verbatim>\<open>--limit\<close>.
\<close>

definition main_script ::
  "('f \<Rightarrow> string) \<Rightarrow> (int \<Rightarrow> 'f) \<Rightarrow> string \<Rightarrow> string \<Rightarrow> int option \<Rightarrow> 'f dataframe \<Rightarrow> string" where
  "main_script fstr fint source_name table limit loaded =
     (let df = apply_limit limit loaded;
          create_sql = build_create_table fstr df table;
          inserts_sql = build_inserts fstr fint df table 1000
      in ''-- Generated for SQL Server (SSMS)'' @ [nl]
         @ ''-- Source: '' @ source_name @ [nl, nl]
         @ create_sql
         @ [nl, nl]
         @ (if nrows df = 0 then ''-- No rows to insert.'' @ [nl] else inserts_sql))"

subsection \<open>\<^verbatim>\<open>sniff_delimiter\<close>\<close>

text \<open>
  The exceptions \<^verbatim>\<open>open\<close> and \<^verbatim>\<open>f.read\<close> can raise. The file is given
  as what reading it as UTF-8 text yields, its text or the exception, and
  \<^verbatim>\<open>csv.Sniffer().sniff\<close> as a function of the sample that returns the
  delimiter of the dialect it found, or nothing when it raises.
\<close>

datatype py_exn = OSError | UnicodeDecodeError

definition sniff_delimiter ::
  "(string \<Rightarrow> string option) \<Rightarrow> py_exn + string \<Rightarrow> py_exn + string" where
  "sniff_delimiter sniff file =
     (case file of
        Inl e \<Rightarrow> Inl e
      | Inr text \<Rightarrow>
          (case sniff (take 2048 text) of
             Some delimiter \<Rightarrow> Inr delimiter
           | None \<Rightarrow> Inr '',''))"

subsection \<open>Batches, as the specification words them\<close>

text \<open>
  The rows cut into consecutive groups of \<open>n\<close>, the last one shorter when \<open>n\<close>
  does not divide their number. The loop of \<^verbatim>\<open>build_inserts\<close> is compared
  with this function below.
\<close>

function batches_of :: "nat \<Rightarrow> 'a list \<Rightarrow> 'a list list" where
  "batches_of n xs = (if n = 0 \<or> xs = [] then [] else take n xs # batches_of n (drop n xs))"
  by pat_completeness auto
termination
  by (relation "measure (\<lambda>(n, xs). length xs)") auto

declare batches_of.simps [simp del]

subsection \<open>Sample inputs\<close>

text \<open>
  Columns and frames the properties below are evaluated on. The frames hold the
  cells as \<^verbatim>\<open>pd.read_csv\<close> stores them.
\<close>

definition dates_9_of_10 :: "unit series" where
  "dates_9_of_10 =
     \<lparr>dtype = Object,
      cells = [PyStr ''2024-01-01'', PyStr ''2024-01-02'', PyStr ''2024-01-03'',
               PyStr ''2024-01-04'', PyStr ''2024-01-05'', PyStr ''2024-01-06'',
               PyStr ''2024-01-07'', PyStr ''2024-01-08'', PyStr ''2024-01-09'',
               PyStr ''unknown'']\<rparr>"

definition dates_with_null :: "unit series" where
  "dates_with_null =
     \<lparr>dtype = Object, cells = [PyStr ''2024-01-01'', PyStr ''2024/01/02'', NaN]\<rparr>"

definition superscript_date :: "unit series" where
  "superscript_date = \<lparr>dtype = Object, cells = [PyStr [CHR 0xB2, CHR ''-'']]\<rparr>"

definition nulls_only :: "unit series" where
  "nulls_only = \<lparr>dtype = Object, cells = [NaN, PyNone]\<rparr>"

definition no_other :: "string option list \<Rightarrow> unit series" where
  "no_other raw = \<lparr>dtype = Object, cells = []\<rparr>"

definition ints_frame :: "'f dataframe" where
  "ints_frame =
     \<lparr>nrows = 2, columns = [(''id'', \<lparr>dtype = Int64, cells = [NpInt 1, NpInt 2]\<rparr>)]\<rparr>"

definition int_float_frame :: "'f \<Rightarrow> 'f dataframe" where
  "int_float_frame x =
     \<lparr>nrows = 1,
      columns = [(''id'', \<lparr>dtype = Int64, cells = [NpInt 1]\<rparr>),
                 (''w'', \<lparr>dtype = Float64, cells = [PyFloat x]\<rparr>)]\<rparr>"

definition people_frame :: "'f dataframe" where
  "people_frame =
     \<lparr>nrows = 3,
      columns = [(''id'', \<lparr>dtype = Int64, cells = [NpInt 1, NpInt 2, NpInt 3]\<rparr>),
                 (''name'', \<lparr>dtype = Object, cells = [PyStr ''Alice'', PyStr ''Bob'', NaN]\<rparr>)]\<rparr>"

definition header_only_frame :: "'f dataframe" where
  "header_only_frame = \<lparr>nrows = 0, columns = [(''id'', \<lparr>dtype = Object, cells = []\<rparr>)]\<rparr>"

definition quoted_table :: string where
  "quoted_table = ''a'' @ [sq] @ ''b''"

section \<open>Properties\<close>

subsection \<open>String literals\<close>

lemma replace_char:
  "replace [c] new s = concat (map (\<lambda>x. if x = c then new else [x]) s)"
  by (induction s) auto

lemma undouble_escaped:
  "undouble (concat (map (\<lambda>x. if x = sq then [sq, sq] else [x]) s)) = Some s"
proof (induction s)
  case Nil
  show ?case by simp
next
  case (Cons a s)
  show ?case
  proof (cases "a = sq")
    case True
    with Cons show ?thesis by simp
  next
    case False
    with Cons show ?thesis
      by (cases "concat (map (\<lambda>x. if x = sq then [sq, sq] else [x]) s)") auto
  qed
qed

lemma count_escaped:
  "length (filter (\<lambda>x. x = sq) (concat (map (\<lambda>x. if x = sq then [sq, sq] else [x]) s)))
     = 2 * length (filter (\<lambda>x. x = sq) s)"
  by (induction s) simp_all

text \<open>
  C2. A string value is rendered as \<^verbatim>\<open>N'\<close>, the value with each single quote
  replaced by two (every occurrence), and a closing quote; the rendered literal
  holds twice as many quotes in its body as the value does; and reading the literal
  back (wrapper off, doubled quotes undone) gives the value again.
\<close>

theorem quote_value_string_roundtrip:
  "quote_value fstr (PyStr s)
     = ''N'' @ [sq] @ concat (map (\<lambda>x. if x = sq then [sq, sq] else [x]) s) @ [sq]
   \<and> length (filter (\<lambda>x. x = sq) (replace [sq] [sq, sq] s))
       = 2 * length (filter (\<lambda>x. x = sq) s)
   \<and> unquote_literal (quote_value fstr (PyStr s)) = Some s"
  by (simp add: replace_char undouble_escaped count_escaped unquote_literal_def)


subsection \<open>Type inference\<close>

lemmas detect_type_defs =
  detect_type_def is_integer_dtype_def is_float_dtype_def is_bool_dtype_def
  is_datetime64_any_dtype_def is_object_dtype_def mean_gt_090_def comp_def Let_def

lemmas sample_defs =
  sample_non_null_def looks_like_date_def looks_like_time_def isdigit_def ascii_digit_def

lemmas token_defs =
  parses_as_int64_def is_int_token_def int_of_token_def digits_value_def ascii_digit_def

text \<open>
  C1, as amended. A column with at least one row whose cells are all integers of
  64 bits in text, or null sentinels, is typed \<^verbatim>\<open>BIGINT\<close> when none of its
  cells is null; when a null stands beside the integers the column is loaded as
  \<^verbatim>\<open>float64\<close> and is typed \<^verbatim>\<open>FLOAT\<close>.
\<close>

theorem detect_type_integer_column:
  assumes "raw \<noteq> []" and "list_all int_or_null_cell raw"
  shows "detect_type fstr (read_csv_column fparse other raw)
           = (if None \<in> set raw then ''FLOAT'' else ''BIGINT'')"
proof (cases "None \<in> set raw")
  case True
  then have "\<not> list_all int_cell raw"
    by (auto simp: list_all_iff intro!: bexI [of _ None])
  with assms True show ?thesis
    by (simp add: read_csv_column_def detect_type_def is_integer_dtype_def is_float_dtype_def)
next
  case False
  have "list_all int_cell raw"
    unfolding list_all_iff
  proof
    fix c assume c: "c \<in> set raw"
    with False obtain s where "c = Some s" by (cases c) auto
    with c assms(2) show "int_cell c" by (auto simp: list_all_iff)
  qed
  with assms False show ?thesis
    by (simp add: read_csv_column_def detect_type_def is_integer_dtype_def)
qed

theorem detect_type_integer_column_witness:
  "detect_type (\<lambda>x. ''1.0'') (read_csv_column (\<lambda>s. ()) no_other [Some ''1'', Some ''-20''])
     = ''BIGINT''"
  using detect_type_integer_column
    [of "[Some ''1'', Some ''-20'']" "\<lambda>x. ''1.0''" "\<lambda>s. ()" no_other]
  by (simp add: token_defs)

text \<open>
  The claim as it is written fails on the column \<^verbatim>\<open>1\<close>, null: its only
  non-null value is an integer, and the type is \<^verbatim>\<open>FLOAT\<close>.
\<close>

theorem detect_type_integer_with_null_counterexample:
  "list_all int_or_null_cell [Some ''1'', None]
   \<and> detect_type (\<lambda>x. ''1.0'') (read_csv_column (\<lambda>s. ()) no_other [Some ''1'', None])
       = ''FLOAT''"
  by (simp add: read_csv_column_def detect_type_def is_integer_dtype_def is_float_dtype_def
      token_defs)

text \<open>
  C4, as amended. An object column without a non-null value (a column without rows
  is one) has an empty sample and is typed \<^verbatim>\<open>NVARCHAR(MAX)\<close>, and so is the
  column \<^verbatim>\<open>pd.read_csv\<close> loads from no rows at all. (A column with rows whose
  cells are all null is not an object column: see the counterexample.)
\<close>

theorem detect_type_no_values:
  assumes "dtype series = Object" and "list_all isna (cells series)"
  shows "sample_non_null fstr series = []
         \<and> detect_type fstr series = ''NVARCHAR(MAX)''
         \<and> detect_type fstr (read_csv_column fparse other []) = ''NVARCHAR(MAX)''"
proof -
  from assms(2) have "filter (\<lambda>v. \<not> isna v) (cells series) = []"
    by (simp add: filter_empty_conv list_all_iff)
  then have "sample_non_null fstr series = []"
    by (simp add: sample_non_null_def)
  with assms(1) show ?thesis
    by (simp add: detect_type_defs sample_defs read_csv_column_def)
qed

theorem detect_type_no_values_witness:
  "detect_type (\<lambda>x. ''0.0'') nulls_only = ''NVARCHAR(MAX)''"
  using detect_type_no_values [of nulls_only "\<lambda>x. ''0.0''"]
  by (simp add: nulls_only_def)

text \<open>
  The claim as it is written fails on a column of two rows, both null: it is loaded
  as \<^verbatim>\<open>float64\<close>, all NaN, and typed \<^verbatim>\<open>FLOAT\<close>.
\<close>

theorem detect_type_all_null_counterexample:
  "list_all isna (cells (read_csv_column (\<lambda>s. ()) no_other [None, None]))
   \<and> detect_type (\<lambda>x. ''0.0'') (read_csv_column (\<lambda>s. ()) no_other [None, None]) = ''FLOAT''"
  by (simp add: read_csv_column_def detect_type_defs)

text \<open>
  C5, as amended. An object column is typed \<^verbatim>\<open>DATE\<close> exactly when more than
  90 percent of its sample (the first hundred non-null values, as text) look like
  dates; at 90 percent exactly it is not. A value looks like a date when it holds a
  \<^verbatim>\<open>-\<close> or a \<^verbatim>\<open>/\<close> and a character \<^verbatim>\<open>isdigit\<close> accepts, a
  superscript digit as well as an ASCII one.
\<close>

theorem detect_type_date_threshold:
  assumes "dtype series = Object"
  shows "(detect_type fstr series = ''DATE'')
           = (9 * length (sample_non_null fstr series)
                < 10 * length (filter looks_like_date (sample_non_null fstr series)))"
proof (cases "9 * length (sample_non_null fstr series)
                < 10 * length (filter looks_like_date (sample_non_null fstr series))")
  case True
  then have "sample_non_null fstr series \<noteq> []" by auto
  with True assms show ?thesis
    by (simp add: detect_type_defs)
next
  case False
  with assms show ?thesis
    by (simp add: detect_type_defs)
qed

theorem detect_type_date_threshold_witness:
  "detect_type (\<lambda>x. ''0.0'') dates_with_null = ''DATE''
   \<and> detect_type (\<lambda>x. ''0.0'') superscript_date = ''DATE''"
  using detect_type_date_threshold [of dates_with_null "\<lambda>x. ''0.0''"]
    detect_type_date_threshold [of superscript_date "\<lambda>x. ''0.0''"]
  by (simp add: dates_with_null_def superscript_date_def sample_defs)

text \<open>
  The claim as it is written fails on ten values of which nine look like dates: the
  rate is 90 percent exactly and the type is \<^verbatim>\<open>NVARCHAR(MAX)\<close>.
\<close>

theorem detect_type_date_at_90_counterexample:
  "dtype dates_9_of_10 = Object
   \<and> 10 * length (filter looks_like_date (sample_non_null (\<lambda>x. ''0.0'') dates_9_of_10))
       = 9 * length (sample_non_null (\<lambda>x. ''0.0'') dates_9_of_10)
   \<and> detect_type (\<lambda>x. ''0.0'') dates_9_of_10 = ''NVARCHAR(MAX)''"
  by (simp add: dates_9_of_10_def detect_type_defs sample_defs)


subsection \<open>The loop of \<^verbatim>\<open>build_inserts\<close>\<close>

lemma batches_of_Nil [simp]: "batches_of n [] = []"
  by (simp add: batches_of.simps)

lemma batches_of_short:
  "0 < length xs \<Longrightarrow> length xs \<le> n \<Longrightarrow> batches_of n xs = [xs]"
  by (subst batches_of.simps) (cases xs; simp)

lemma batches_of_append:
  "0 < length xs \<Longrightarrow> batches_of (length xs) (xs @ ys) = xs # batches_of (length xs) ys"
  by (subst batches_of.simps) auto

lemma concat_batches_of: "0 < n \<Longrightarrow> concat (batches_of n xs) = xs"
proof (induction n xs rule: batches_of.induct)
  case (1 n xs)
  then show ?case
    by (subst batches_of.simps) auto
qed

lemma batches_of_bounds: "list_all (\<lambda>b. b \<noteq> [] \<and> length b \<le> n) (batches_of n xs)"
proof (induction n xs rule: batches_of.induct)
  case (1 n xs)
  then show ?case
    by (subst batches_of.simps) auto
qed

lemma length_batches_of: "0 < n \<Longrightarrow> length (batches_of n xs) = (length xs + n - 1) div n"
proof (induction n xs rule: batches_of.induct)
  case (1 n xs)
  show ?case
  proof (cases "xs = []")
    case True
    with "1.prems" show ?thesis by simp
  next
    case False
    then have len: "0 < length xs" by simp
    have step: "length (batches_of n xs) = Suc (length (batches_of n (drop n xs)))"
      using False "1.prems" by (subst batches_of.simps) simp
    have ih: "length (batches_of n (drop n xs)) = (length xs - n + n - 1) div n"
      using "1.IH" False "1.prems" by simp
    show ?thesis
    proof (cases "length xs \<le> n")
      case True
      with len "1.prems" have "n \<le> length xs + n - 1" and "length xs + n - 1 < n + n"
        by linarith+
      then have "(length xs + n - 1) div n = 1"
        by (intro div_nat_eqI) simp_all
      moreover from True have "length (batches_of n (drop n xs)) = 0" by simp
      ultimately show ?thesis using step by simp
    next
      case gt: False
      then have "length xs + n - 1 = (length xs - n + n - 1) + n" by simp
      then have "(length xs + n - 1) div n = Suc ((length xs - n + n - 1) div n)"
        using "1.prems" by (metis div_add_self2 less_numeral_extra(3) Suc_eq_plus1)
      with step ih show ?thesis by simp
    qed
  qed
qed

lemma inserts_loop_batches:
  "length batch < nat (max 1 B) \<Longrightarrow>
   inserts_loop fstr t cols B rows batch stmts
     = stmts @ map (insert_statement t cols)
                 (batches_of (nat (max 1 B)) (batch @ map (value_tuple fstr) rows))"
proof (induction rows arbitrary: batch stmts)
  case Nil
  then show ?case
    by (cases "batch = []") (simp_all add: batches_of_short)
next
  case (Cons row rows)
  let ?b = "batch @ [value_tuple fstr row]"
  show ?case
  proof (cases "int (length ?b) \<ge> B")
    case True
    with Cons.prems have len: "length ?b = nat (max 1 B)" by auto
    have "batches_of (nat (max 1 B)) (?b @ map (value_tuple fstr) rows)
            = ?b # batches_of (nat (max 1 B)) (map (value_tuple fstr) rows)"
      using batches_of_append [of ?b "map (value_tuple fstr) rows"] len by simp
    moreover have "inserts_loop fstr t cols B rows [] (stmts @ [insert_statement t cols ?b])
        = (stmts @ [insert_statement t cols ?b]) @ map (insert_statement t cols)
            (batches_of (nat (max 1 B)) ([] @ map (value_tuple fstr) rows))"
      by (rule Cons.IH) simp
    ultimately show ?thesis using True by simp
  next
    case False
    then have "length ?b < nat (max 1 B)" by auto
    from Cons.IH [OF this, of stmts] False show ?thesis by simp
  qed
qed


lemma insert_statements_batches:
  "insert_statements fstr fint df t B
     = map (insert_statement t (join '', '' (map (bracket_ident \<circ> fst) (columns df))))
         (batches_of (nat (max 1 B)) (map (value_tuple fstr) (iterrows fint df)))"
  unfolding insert_statements_def
  by (subst inserts_loop_batches) simp_all

lemma length_iterrows: "length (iterrows fint df) = nrows df"
  by (simp add: iterrows_def)

lemma build_create_table_contains:
  "\<exists>pre post. build_create_table fstr df t = pre @ ''CREATE TABLE '' @ t @ post"
  unfolding build_create_table_def Let_def
  by (intro exI [of _ "''IF OBJECT_ID(N'' @ [sq] @ t @ [sq] @ '', N'' @ [sq] @ ''U'' @ [sq]
         @ '') IS NOT NULL DROP TABLE '' @ t @ '';'' @ [nl] @ ''GO'' @ [nl]"]
       exI [of _ "'' ('' @ [nl] @ ''    ''
         @ join ('','' @ [nl] @ ''    '')
             (map (\<lambda>c. bracket_ident (fst c) @ '' '' @ detect_type fstr (snd c)) (columns df))
         @ [nl] @ '');'' @ [nl] @ ''GO''"]) simp

text \<open>
  C6. For a frame of \<open>N > 0\<close> rows and a batch size \<open>B > 0\<close>, the text
  \<^verbatim>\<open>build_inserts\<close> returns is the \<^verbatim>\<open>INSERT\<close> blocks, joined by
  newlines, of the consecutive groups of \<open>B\<close> value tuples, each block being
  \<^verbatim>\<open>INSERT INTO\<close>, the table, the column list, \<^verbatim>\<open>VALUES\<close>, the
  tuples of its group and \<^verbatim>\<open>GO\<close>; there are \<open>ceil (N / B)\<close> blocks, written
  \<open>(N + B - 1) div B\<close>; every block holds at least one and at most \<open>B\<close> tuples;
  and the tuples of all blocks, concatenated in the order of the blocks, are the
  tuples of the rows in the order of the rows.
\<close>

theorem build_inserts_batching:
  assumes "0 < B" and "0 < nrows df"
  shows "build_inserts fstr fint df t B
           = join [nl]
               (map (\<lambda>batch. ''INSERT INTO '' @ t @ '' (''
                              @ join '', '' (map (bracket_ident \<circ> fst) (columns df))
                              @ '') VALUES'' @ [nl] @ join ('','' @ [nl]) batch @ '';'' @ [nl] @ ''GO'')
                  (batches_of (nat B)
                     (map (\<lambda>row. ''('' @ join '', '' (map (quote_value fstr) row) @ '')'')
                        (iterrows fint df))))
         \<and> insert_statements fstr fint df t B
           = map (\<lambda>batch. ''INSERT INTO '' @ t @ '' (''
                              @ join '', '' (map (bracket_ident \<circ> fst) (columns df))
                              @ '') VALUES'' @ [nl] @ join ('','' @ [nl]) batch @ '';'' @ [nl] @ ''GO'')
               (batches_of (nat B)
                  (map (\<lambda>row. ''('' @ join '', '' (map (quote_value fstr) row) @ '')'')
                     (iterrows fint df)))
         \<and> length (insert_statements fstr fint df t B) = (nrows df + nat B - 1) div nat B
         \<and> list_all (\<lambda>batch. batch \<noteq> [] \<and> length batch \<le> nat B)
              (batches_of (nat B)
                 (map (\<lambda>row. ''('' @ join '', '' (map (quote_value fstr) row) @ '')'')
                    (iterrows fint df)))
         \<and> concat (batches_of (nat B)
                     (map (\<lambda>row. ''('' @ join '', '' (map (quote_value fstr) row) @ '')'')
                        (iterrows fint df)))
              = map (\<lambda>row. ''('' @ join '', '' (map (quote_value fstr) row) @ '')'')
                  (iterrows fint df)"
proof -
  let ?tuples = "map (\<lambda>row. ''('' @ join '', '' (map (quote_value fstr) row) @ '')'')
      (iterrows fint df)"
  let ?block = "\<lambda>batch. ''INSERT INTO '' @ t @ '' (''
      @ join '', '' (map (bracket_ident \<circ> fst) (columns df))
      @ '') VALUES'' @ [nl] @ join ('','' @ [nl]) batch @ '';'' @ [nl] @ ''GO''"
  from assms(1) have B: "nat (max 1 B) = nat B" and pos: "0 < nat B" by simp_all
  have tuples: "map (value_tuple fstr) (iterrows fint df) = ?tuples"
    by (simp add: value_tuple_def)
  have block: "insert_statement t (join '', '' (map (bracket_ident \<circ> fst) (columns df))) = ?block"
    by (rule ext) (simp add: insert_statement_def)
  have stmts: "insert_statements fstr fint df t B = map ?block (batches_of (nat B) ?tuples)"
    using insert_statements_batches [of fstr fint df t B] B tuples block by simp
  then have joined: "build_inserts fstr fint df t B
      = join [nl] (map ?block (batches_of (nat B) ?tuples))"
    by (simp add: build_inserts_def)
  have "length ?tuples = nrows df"
    by (simp add: length_iterrows)
  with pos have len: "length (insert_statements fstr fint df t B)
      = (nrows df + nat B - 1) div nat B"
    by (simp add: stmts length_batches_of)
  have bound: "list_all (\<lambda>batch. batch \<noteq> [] \<and> length batch \<le> nat B)
      (batches_of (nat B) ?tuples)"
    by (rule batches_of_bounds)
  have cat: "concat (batches_of (nat B) ?tuples) = ?tuples"
    using pos by (rule concat_batches_of)
  show ?thesis
    using joined stmts len bound cat by (intro conjI)
qed

theorem build_inserts_batching_witness:
  "build_inserts (\<lambda>x. ''0.5'') (\<lambda>n. ()) people_frame ''t'' 2
     = ''INSERT INTO t ([id], [name]) VALUES'' @ [nl]
       @ ''(1, N'' @ [sq] @ ''Alice'' @ [sq] @ ''),'' @ [nl]
       @ ''(2, N'' @ [sq] @ ''Bob'' @ [sq] @ '');'' @ [nl] @ ''GO'' @ [nl]
       @ ''INSERT INTO t ([id], [name]) VALUES'' @ [nl]
       @ ''(3, NULL);'' @ [nl] @ ''GO''
   \<and> length (insert_statements (\<lambda>x. ''0.5'') (\<lambda>n. ()) people_frame ''t'' 2) = 2"
proof -
  have B: "(0::int) < 2"
    by simp
  have n: "nrows (people_frame :: unit dataframe) = 3"
    by (simp add: people_frame_def)
  then have rows: "0 < nrows (people_frame :: unit dataframe)"
    by simp
  note batching = build_inserts_batching [OF B rows, of "\<lambda>x. ''0.5''" "\<lambda>n. ()" "''t''"]
  have "build_inserts (\<lambda>x. ''0.5'') (\<lambda>n. ()) people_frame ''t'' 2
     = ''INSERT INTO t ([id], [name]) VALUES'' @ [nl]
       @ ''(1, N'' @ [sq] @ ''Alice'' @ [sq] @ ''),'' @ [nl]
       @ ''(2, N'' @ [sq] @ ''Bob'' @ [sq] @ '');'' @ [nl] @ ''GO'' @ [nl]
       @ ''INSERT INTO t ([id], [name]) VALUES'' @ [nl]
       @ ''(3, NULL);'' @ [nl] @ ''GO''"
    using batching [THEN conjunct1]
    by (simp add: people_frame_def iterrows_def common_dtype_def bracket_ident_def
        str_int_def str_nat.simps upt_rec sq_def batches_of.simps)
  moreover have "length (insert_statements (\<lambda>x. ''0.5'') (\<lambda>n. ()) people_frame ''t'' 2) = 2"
    using batching [THEN conjunct2, THEN conjunct2, THEN conjunct1] n by simp
  ultimately show ?thesis ..
qed

text \<open>
  C7. Whatever the frame and the batch size, every statement of the insert emitter
  is the \<^verbatim>\<open>INSERT\<close> block of a batch that is not empty. When the frame has no
  rows after the limit, the emitter returns the empty text, and the script
  \<^verbatim>\<open>main\<close> writes is the two header lines, the \<^verbatim>\<open>CREATE TABLE\<close> block
  (which holds \<^verbatim>\<open>CREATE TABLE\<close> and the table name), a blank line and the
  comment that there are no rows to insert.
\<close>

theorem no_empty_insert:
  assumes "nrows (apply_limit limit loaded) = 0"
  shows "insert_statements fstr fint df t B
           = map (insert_statement t (join '', '' (map (bracket_ident \<circ> fst) (columns df))))
               (batches_of (nat (max 1 B)) (map (value_tuple fstr) (iterrows fint df)))
         \<and> list_all (\<lambda>b. b \<noteq> [])
              (batches_of (nat (max 1 B)) (map (value_tuple fstr) (iterrows fint df)))
         \<and> build_inserts fstr fint (apply_limit limit loaded) t B = []
         \<and> main_script fstr fint source_name t limit loaded
             = ''-- Generated for SQL Server (SSMS)'' @ [nl]
               @ ''-- Source: '' @ source_name @ [nl, nl]
               @ build_create_table fstr (apply_limit limit loaded) t
               @ [nl, nl] @ ''-- No rows to insert.'' @ [nl]
         \<and> (\<exists>pre post. build_create_table fstr (apply_limit limit loaded) t
                = pre @ ''CREATE TABLE '' @ t @ post)"
proof (intro conjI)
  show "insert_statements fstr fint df t B
      = map (insert_statement t (join '', '' (map (bracket_ident \<circ> fst) (columns df))))
          (batches_of (nat (max 1 B)) (map (value_tuple fstr) (iterrows fint df)))"
    by (rule insert_statements_batches)
  show "list_all (\<lambda>b. b \<noteq> [])
      (batches_of (nat (max 1 B)) (map (value_tuple fstr) (iterrows fint df)))"
    using batches_of_bounds [of "nat (max 1 B)" "map (value_tuple fstr) (iterrows fint df)"]
    by (simp add: list_all_iff)
  from assms have "iterrows fint (apply_limit limit loaded) = []"
    by (simp add: iterrows_def)
  then show "build_inserts fstr fint (apply_limit limit loaded) t B = []"
    by (simp add: build_inserts_def insert_statements_def)
  show "main_script fstr fint source_name t limit loaded
      = ''-- Generated for SQL Server (SSMS)'' @ [nl]
        @ ''-- Source: '' @ source_name @ [nl, nl]
        @ build_create_table fstr (apply_limit limit loaded) t
        @ [nl, nl] @ ''-- No rows to insert.'' @ [nl]"
    using assms by (simp add: main_script_def Let_def)
  show "\<exists>pre post. build_create_table fstr (apply_limit limit loaded) t
      = pre @ ''CREATE TABLE '' @ t @ post"
    by (rule build_create_table_contains)
qed

theorem no_empty_insert_witness:
  "build_inserts (\<lambda>x. ''0.5'') (\<lambda>n. ()) (apply_limit None header_only_frame) ''t'' 1000 = []
   \<and> main_script (\<lambda>x. ''0.5'') (\<lambda>n. ()) ''a.csv'' ''t'' None header_only_frame
       = ''-- Generated for SQL Server (SSMS)'' @ [nl] @ ''-- Source: a.csv'' @ [nl, nl]
         @ ''IF OBJECT_ID(N'' @ [sq] @ ''t'' @ [sq] @ '', N'' @ [sq] @ ''U'' @ [sq]
         @ '') IS NOT NULL DROP TABLE t;'' @ [nl] @ ''GO'' @ [nl]
         @ ''CREATE TABLE t ('' @ [nl] @ ''    [id] NVARCHAR(MAX)'' @ [nl] @ '');'' @ [nl] @ ''GO''
         @ [nl, nl] @ ''-- No rows to insert.'' @ [nl]"
proof -
  have empty: "nrows (apply_limit None (header_only_frame :: unit dataframe)) = 0"
    by (simp add: apply_limit_def header_only_frame_def)
  note facts = no_empty_insert [OF empty, of "\<lambda>x. ''0.5''" "\<lambda>n. ()" header_only_frame "''t''" 1000 "''a.csv''"]
  have create: "build_create_table (\<lambda>x. ''0.5'') (apply_limit None (header_only_frame :: unit dataframe)) ''t''
      = ''IF OBJECT_ID(N'' @ [sq] @ ''t'' @ [sq] @ '', N'' @ [sq] @ ''U'' @ [sq]
         @ '') IS NOT NULL DROP TABLE t;'' @ [nl] @ ''GO'' @ [nl]
         @ ''CREATE TABLE t ('' @ [nl] @ ''    [id] NVARCHAR(MAX)'' @ [nl] @ '');'' @ [nl] @ ''GO''"
    by (simp add: apply_limit_def header_only_frame_def build_create_table_def bracket_ident_def
        detect_type_defs sample_defs)
  have "build_inserts (\<lambda>x. ''0.5'') (\<lambda>n. ()) (apply_limit None header_only_frame) ''t'' 1000 = []"
    using facts [THEN conjunct2, THEN conjunct2, THEN conjunct1] .
  moreover have "main_script (\<lambda>x. ''0.5'') (\<lambda>n. ()) ''a.csv'' ''t'' None header_only_frame
       = ''-- Generated for SQL Server (SSMS)'' @ [nl] @ ''-- Source: a.csv'' @ [nl, nl]
         @ ''IF OBJECT_ID(N'' @ [sq] @ ''t'' @ [sq] @ '', N'' @ [sq] @ ''U'' @ [sq]
         @ '') IS NOT NULL DROP TABLE t;'' @ [nl] @ ''GO'' @ [nl]
         @ ''CREATE TABLE t ('' @ [nl] @ ''    [id] NVARCHAR(MAX)'' @ [nl] @ '');'' @ [nl] @ ''GO''
         @ [nl, nl] @ ''-- No rows to insert.'' @ [nl]"
    using facts [THEN conjunct2, THEN conjunct2, THEN conjunct2, THEN conjunct1] create by simp
  ultimately show ?thesis ..
qed


subsection \<open>The row limit\<close>

lemmas render_defs = build_inserts_def insert_statements_def iterrows_def common_dtype_def
  value_tuple_def insert_statement_def bracket_ident_def str_int_def str_nat.simps upt_rec sq_def

text \<open>A positive limit caps the rows that are processed and emitted.\<close>

lemma apply_limit_positive:
  "0 < n \<Longrightarrow> nrows (apply_limit (Some n) df) \<le> nat n
     \<and> length (iterrows fint (apply_limit (Some n) df)) \<le> nat n"
  by (simp add: apply_limit_def head_def iterrows_def Let_def)

text \<open>
  C8, at the limit \<open>0\<close>. \<^verbatim>\<open>--limit 0\<close> leaves the frame as it was loaded,
  whatever the frame: on a frame of two rows both rows are iterated and both are
  emitted in the \<^verbatim>\<open>INSERT\<close> block, where the claim allows none.
\<close>

theorem limit_zero_not_applied:
  "apply_limit (Some 0) df = df
   \<and> length (iterrows fint (apply_limit (Some 0) ints_frame)) = 2
   \<and> build_inserts fstr fint (apply_limit (Some 0) ints_frame) ''t'' 1000
       = ''INSERT INTO t ([id]) VALUES'' @ [nl]
         @ ''(N'' @ [sq] @ ''1'' @ [sq] @ ''),'' @ [nl]
         @ ''(N'' @ [sq] @ ''2'' @ [sq] @ '');'' @ [nl] @ ''GO''"
  by (simp add: apply_limit_def ints_frame_def render_defs)

subsection \<open>Rendering the cells of an integer column\<close>

text \<open>
  C9, on three frames. In a frame of one integer column the column is typed
  \<^verbatim>\<open>BIGINT\<close> and its cells are rendered as quoted string literals; beside a
  float column the integer cell is rendered as the text of the float it was
  converted to; beside an object column it is rendered as the bare integer.
\<close>

theorem integer_cells_rendered:
  "detect_type fstr (snd (hd (columns ints_frame))) = ''BIGINT''
   \<and> build_inserts fstr fint ints_frame ''t'' 1000
       = ''INSERT INTO t ([id]) VALUES'' @ [nl]
         @ ''(N'' @ [sq] @ ''1'' @ [sq] @ ''),'' @ [nl]
         @ ''(N'' @ [sq] @ ''2'' @ [sq] @ '');'' @ [nl] @ ''GO''
   \<and> detect_type fstr (snd (hd (columns (int_float_frame x)))) = ''BIGINT''
   \<and> build_inserts fstr fint (int_float_frame x) ''t'' 1000
       = ''INSERT INTO t ([id], [w]) VALUES'' @ [nl]
         @ ''('' @ fstr (fint 1) @ '', '' @ fstr x @ '');'' @ [nl] @ ''GO''
   \<and> build_inserts fstr fint people_frame ''t'' 1000
       = ''INSERT INTO t ([id], [name]) VALUES'' @ [nl]
         @ ''(1, N'' @ [sq] @ ''Alice'' @ [sq] @ ''),'' @ [nl]
         @ ''(2, N'' @ [sq] @ ''Bob'' @ [sq] @ ''),'' @ [nl]
         @ ''(3, NULL);'' @ [nl] @ ''GO''"
  by (simp add: ints_frame_def int_float_frame_def people_frame_def render_defs detect_type_defs)

subsection \<open>The delimiter sniffer\<close>

text \<open>
  C3, where the sample cannot be read. An exception raised by opening, reading or
  decoding the file leaves \<^verbatim>\<open>sniff_delimiter\<close> as it was raised; only a
  failure of the detection itself is turned into the comma, and once the sample is
  read the function returns a delimiter.
\<close>

theorem sniff_delimiter_read_failure:
  "sniff_delimiter sniff (Inl UnicodeDecodeError) = Inl UnicodeDecodeError
   \<and> sniff_delimiter sniff (Inl OSError) = Inl OSError
   \<and> sniff_delimiter (\<lambda>sample. None) (Inr text) = Inr '',''
   \<and> (\<exists>delimiter. sniff_delimiter sniff (Inr text) = Inr delimiter)"
  by (simp add: sniff_delimiter_def split: option.split)

subsection \<open>The table name\<close>

lemma insert_statements_prefix:
  "list_all (prefix (''INSERT INTO '' @ t @ '' ('')) (insert_statements fstr fint df t B)"
  by (simp add: insert_statements_batches list_all_iff insert_statement_def)

text \<open>
  C10. For every table name, \<^verbatim>\<open>build_create_table\<close> puts the name as it is
  between the quotes of \<^verbatim>\<open>OBJECT_ID(N'...')\<close>, after \<^verbatim>\<open>DROP TABLE\<close> and
  after \<^verbatim>\<open>CREATE TABLE\<close>, and every statement of \<^verbatim>\<open>build_inserts\<close>
  begins with \<^verbatim>\<open>INSERT INTO\<close> and the name as it is. For the name
  \<^verbatim>\<open>a'b\<close> the script begins with \<^verbatim>\<open>IF OBJECT_ID(N'a'b', N\<close>: the
  literal holds a quote that is not doubled and cannot be read back, and the
  \<^verbatim>\<open>INSERT\<close> block names the table \<^verbatim>\<open>a'b\<close> without brackets.
\<close>

theorem table_name_verbatim:
  "(\<exists>cols. build_create_table fstr df t
      = ''IF OBJECT_ID(N'' @ [sq] @ t @ [sq] @ '', N'' @ [sq] @ ''U'' @ [sq]
        @ '') IS NOT NULL DROP TABLE '' @ t @ '';'' @ [nl] @ ''GO'' @ [nl]
        @ ''CREATE TABLE '' @ t @ '' ('' @ [nl] @ ''    '' @ cols @ [nl] @ '');'' @ [nl] @ ''GO'')
   \<and> list_all (prefix (''INSERT INTO '' @ t @ '' ('')) (insert_statements fstr fint df t B)
   \<and> sq \<in> set quoted_table
   \<and> prefix (''IF OBJECT_ID(N'' @ [sq] @ ''a'' @ [sq] @ ''b'' @ [sq] @ '', N'')
        (build_create_table fstr df quoted_table)
   \<and> unquote_literal (''N'' @ [sq] @ quoted_table @ [sq]) = None
   \<and> build_inserts fstr fint ints_frame quoted_table 1000
       = ''INSERT INTO a'' @ [sq] @ ''b ([id]) VALUES'' @ [nl]
         @ ''(N'' @ [sq] @ ''1'' @ [sq] @ ''),'' @ [nl]
         @ ''(N'' @ [sq] @ ''2'' @ [sq] @ '');'' @ [nl] @ ''GO''"
proof (intro conjI)
  show "\<exists>cols. build_create_table fstr df t
      = ''IF OBJECT_ID(N'' @ [sq] @ t @ [sq] @ '', N'' @ [sq] @ ''U'' @ [sq]
        @ '') IS NOT NULL DROP TABLE '' @ t @ '';'' @ [nl] @ ''GO'' @ [nl]
        @ ''CREATE TABLE '' @ t @ '' ('' @ [nl] @ ''    '' @ cols @ [nl] @ '');'' @ [nl] @ ''GO''"
    unfolding build_create_table_def Let_def by (rule exI) (rule refl)
  show "list_all (prefix (''INSERT INTO '' @ t @ '' ('')) (insert_statements fstr fint df t B)"
    by (rule insert_statements_prefix)
  show "sq \<in> set quoted_table"
    by (simp add: quoted_table_def)
  show "prefix (''IF OBJECT_ID(N'' @ [sq] @ ''a'' @ [sq] @ ''b'' @ [sq] @ '', N'')
      (build_create_table fstr df quoted_table)"
    by (simp add: build_create_table_def quoted_table_def Let_def)
  show "unquote_literal (''N'' @ [sq] @ quoted_table @ [sq]) = None"
    by (simp add: unquote_literal_def quoted_table_def sq_def)
  show "build_inserts fstr fint ints_frame quoted_table 1000
      = ''INSERT INTO a'' @ [sq] @ ''b ([id]) VALUES'' @ [nl]
        @ ''(N'' @ [sq] @ ''1'' @ [sq] @ ''),'' @ [nl]
        @ ''(N'' @ [sq] @ ''2'' @ [sq] @ '');'' @ [nl] @ ''GO''"
    by (simp add: ints_frame_def quoted_table_def render_defs)
qed

end
